theory Spec2Isabelle
  imports Complex_Main "HOL-Library.Sublist"
begin

section \<open>Python values as the handlers see them\<close>

text \<open>
  The handlers of \<^verbatim>\<open>api.py\<close> work on decoded JSON: \<^verbatim>\<open>request.json\<close>,
  \<^verbatim>\<open>request.get_json(silent=True)\<close>. A decoded value is one of Python's
  \<^verbatim>\<open>None\<close>, \<^verbatim>\<open>bool\<close>, \<^verbatim>\<open>int\<close>, \<^verbatim>\<open>float\<close>, \<^verbatim>\<open>str\<close>, \<^verbatim>\<open>list\<close>, \<^verbatim>\<open>dict\<close>.
  \<open>JNull\<close> is \<^verbatim>\<open>None\<close>: it is what both accessors give for the body \<^verbatim>\<open>null\<close>, and
  what \<^verbatim>\<open>get_json(silent=True)\<close> gives when there is no JSON body at all.
  A finite float is a rational number; only whether it is zero is ever looked at.
  A dict is an association list read with \<open>map_of\<close> (the first binding of a key counts).
\<close>

datatype json =
    JNull
  | JBool bool
  | JInt int
  | JFloat rat
  | JStr string
  | JArr "json list"
  | JObj "(string \<times> json) list"

datatype pyexn = AttributeError | TypeError | KeyError | ValidationError

text \<open>Python truthiness, as \<^verbatim>\<open>not data\<close>, \<^verbatim>\<open>not payload\<close>, \<^verbatim>\<open>not sender\<close> and \<^verbatim>\<open>x or []\<close> use it.\<close>

fun py_truthy :: "json \<Rightarrow> bool" where
  "py_truthy JNull = False"
| "py_truthy (JBool b) = b"
| "py_truthy (JInt n) = (n \<noteq> 0)"
| "py_truthy (JFloat r) = (r \<noteq> 0)"
| "py_truthy (JStr s) = (s \<noteq> [])"
| "py_truthy (JArr xs) = (xs \<noteq> [])"
| "py_truthy (JObj kvs) = (kvs \<noteq> [])"

text \<open>
  \<^verbatim>\<open>k in data\<close> for a string \<open>k\<close>: key membership on a dict, element membership on a
  list, substring test on a string, \<^verbatim>\<open>TypeError\<close> on everything else.
\<close>

fun py_in :: "string \<Rightarrow> json \<Rightarrow> pyexn + bool" where
  "py_in k (JObj kvs) = Inr (k \<in> set (map fst kvs))"
| "py_in k (JArr xs) = Inr (JStr k \<in> set xs)"
| "py_in k (JStr s) = Inr (sublist k s)"
| "py_in k _ = Inl TypeError"

text \<open>\<^verbatim>\<open>d.get(k, default)\<close>: only a dict has the method.\<close>

fun py_get :: "json \<Rightarrow> string \<Rightarrow> json \<Rightarrow> pyexn + json" where
  "py_get (JObj kvs) k dflt = Inr (case map_of kvs k of None \<Rightarrow> dflt | Some v \<Rightarrow> v)"
| "py_get _ k dflt = Inl AttributeError"

text \<open>\<^verbatim>\<open>d[k]\<close> for a string \<open>k\<close>.\<close>

fun py_getitem :: "json \<Rightarrow> string \<Rightarrow> pyexn + json" where
  "py_getitem (JObj kvs) k = (case map_of kvs k of None \<Rightarrow> Inl KeyError | Some v \<Rightarrow> Inr v)"
| "py_getitem _ k = Inl TypeError"

text \<open>
  \<^verbatim>\<open>for x in v\<close>: the elements of a list, the keys of a dict, the characters of a
  string; anything else is not iterable.
\<close>

fun py_iter :: "json \<Rightarrow> pyexn + json list" where
  "py_iter (JArr xs) = Inr xs"
| "py_iter (JObj kvs) = Inr (map JStr (remdups (map fst kvs)))"
| "py_iter (JStr s) = Inr (map (\<lambda>c. JStr [c]) s)"
| "py_iter _ = Inl TypeError"

text \<open>
  A key of the \<^verbatim>\<open>conversations\<close> dict. Python compares keys with \<^verbatim>\<open>==\<close>, under
  which \<^verbatim>\<open>True\<close>, \<^verbatim>\<open>1\<close> and \<^verbatim>\<open>1.0\<close> are one key; lists and dicts are unhashable.
\<close>

datatype dkey = KNone | KNum rat | KStr string

fun py_hash :: "json \<Rightarrow> pyexn + dkey" where
  "py_hash JNull = Inr KNone"
| "py_hash (JBool b) = Inr (KNum (if b then 1 else 0))"
| "py_hash (JInt n) = Inr (KNum (of_int n))"
| "py_hash (JFloat r) = Inr (KNum r)"
| "py_hash (JStr s) = Inr (KStr s)"
| "py_hash (JArr xs) = Inl TypeError"
| "py_hash (JObj kvs) = Inl TypeError"

section \<open>Data model\<close>

text \<open>A history entry \<^verbatim>\<open>{'role': ..., 'text': ...}\<close>.\<close>

record turn =
  role :: string
  turn_text :: json

text \<open>\<^verbatim>\<open>types.Part(text=...)\<close> and \<^verbatim>\<open>types.Content(role=..., parts=[...])\<close>.\<close>

datatype part = Part json

datatype content = Content string "part list"

text \<open>The arguments of one \<^verbatim>\<open>client.models.generate_content\<close> call.\<close>

record gen_request =
  model :: string
  contents :: "content list"
  system_instruction :: string
  file_search_store_names :: "string list"

text \<open>The arguments of one \<^verbatim>\<open>requests.post\<close> call, and what comes back.\<close>

record wa_request =
  url :: string
  headers :: "(string \<times> string) list"
  json_payload :: json
  timeout :: nat

datatype http_outcome =
    PostRaised string
  | RespJson json
  | RespNotJson int string

text \<open>
  Configuration and the outside world. The four strings are the module constants read
  from the process environment. The remaining fields are what the source calls but does
  not define:
  \<^item> \<open>generate_content n req\<close> is the outcome of the \<open>n\<close>-th call of the generation
    provider: \<open>Inl m\<close> when it raises an exception \<open>e\<close> with \<^verbatim>\<open>str(e) = m\<close>, \<open>Inr t\<close>
    when it returns \<^verbatim>\<open>response.text = t\<close>;
  \<^item> \<open>requests_post n req\<close> is the outcome of the \<open>n\<close>-th HTTP post;
  \<^item> \<open>Part_accepts v\<close> says whether \<^verbatim>\<open>types.Part(text=v)\<close> validates a value that is
    not a string;
  \<^item> \<open>py_repr v\<close> is the text an f-string gives for a number, list or dict.
\<close>

record env =
  FILE_SEARCH_STORE_ID :: string
  WHATSAPP_TOKEN :: string
  WHATSAPP_VERIFY_TOKEN :: string
  WHATSAPP_PHONE_ID :: string
  generate_content :: "nat \<Rightarrow> gen_request \<Rightarrow> string + string"
  requests_post :: "nat \<Rightarrow> wa_request \<Rightarrow> http_outcome"
  Part_accepts :: "json \<Rightarrow> bool"
  py_repr :: "json \<Rightarrow> string"

text \<open>
  The process state: the global \<^verbatim>\<open>conversations\<close> dict, and the trace of outbound
  calls made so far (generation calls, calls of the delivery function, HTTP posts).
\<close>

record world =
  conversations :: "dkey \<rightharpoonup> turn list"
  gen_calls :: "gen_request list"
  delivery_calls :: "(json \<times> string) list"
  http_posts :: "wa_request list"

text \<open>The Flask session of one client: a dict, of which only \<^verbatim>\<open>'chat_history'\<close> is used.\<close>

type_synonym session = "string \<rightharpoonup> turn list"

text \<open>What a view function returns: a body and a status.\<close>

datatype body = Body_None | Body_Str string | Body_Json json

type_synonym response = "body \<times> nat"

section \<open>Constants\<close>

text \<open>Non-ASCII letters of the source's string literals, as their UTF-8 bytes.\<close>

abbreviation (input) a_acute :: string where "a_acute \<equiv> [CHR 0xC3, CHR 0xA1]"
abbreviation (input) e_acute :: string where "e_acute \<equiv> [CHR 0xC3, CHR 0xA9]"
abbreviation (input) o_acute :: string where "o_acute \<equiv> [CHR 0xC3, CHR 0xB3]"
abbreviation (input) u_acute :: string where "u_acute \<equiv> [CHR 0xC3, CHR 0xBA]"

definition SYSTEM_PROMPT_RESERVAS :: string where
  "SYSTEM_PROMPT_RESERVAS =
     ''Eres un amable y profesional agente de reservas del hotel. '' @
     ''Tu objetivo es responder todas las preguntas de los clientes de manera cort'' @ e_acute @
     ''s y '' @ u_acute @ ''til, '' @
     ''utilizando exclusivamente la informaci'' @ o_acute @
     ''n proporcionada por la base de conocimiento (FileSearch). '' @
     ''C'' @ e_acute @ ''ntrate en informaci'' @ o_acute @
     ''n de servicios, disponibilidad, y precios del hotel. '' @
     ''Cuando no encuentres un servicio en la documentacion, indica claramente que aun no se cuenta con ese servicio, no menciones que no encuentras ese servicio en la documentacion.'' @
     ''Siempre mant'' @ e_acute @
     ''n un tono de servicio al cliente y anima al usuario a hacer una reserva o continuar su consulta.''"

definition APOLOGY :: string where
  "APOLOGY = ''Lo siento, ocurri'' @ o_acute @
     '' un problema procesando tu consulta. Intenta nuevamente m'' @ a_acute @ ''s tarde.''"

section \<open>Generation client\<close>

text \<open>
  \<^verbatim>\<open>types.Part(text=v)\<close>: a string is a valid text; for any other value the library
  decides.
\<close>

definition types_Part :: "env \<Rightarrow> json \<Rightarrow> pyexn + part" where
  "types_Part env v =
     (case v of
        JStr s \<Rightarrow> Inr (Part v)
      | _ \<Rightarrow> if Part_accepts env v then Inr (Part v) else Inl ValidationError)"

text \<open>
  The loop \<^verbatim>\<open>for message in history_json: full_contents.append(...)\<close>, with
  \<open>acc\<close> the list built so far.
\<close>

fun history_contents :: "env \<Rightarrow> turn list \<Rightarrow> content list \<Rightarrow> pyexn + content list" where
  "history_contents env [] acc = Inr acc"
| "history_contents env (message # rest) acc =
     (case types_Part env (turn_text message) of
        Inl e \<Rightarrow> Inl e
      | Inr p \<Rightarrow> history_contents env rest (acc @ [Content (role message) [p]]))"

definition search_file_store ::
  "env \<Rightarrow> content list \<Rightarrow> string list \<Rightarrow> string \<Rightarrow> string \<Rightarrow> world \<Rightarrow> (string + string) \<times> world" where
  "search_file_store env cs store_names mdl sys w =
     (let req = \<lparr>model = mdl, contents = cs, system_instruction = sys,
                 file_search_store_names = store_names\<rparr>
      in (generate_content env (length (gen_calls w)) req,
          w\<lparr>gen_calls := gen_calls w @ [req]\<rparr>))"

definition procesar_con_gemini_for_sender ::
  "env \<Rightarrow> json \<Rightarrow> json \<Rightarrow> world \<Rightarrow> (pyexn + string) \<times> world" where
  "procesar_con_gemini_for_sender env sender_id user_text w =
     (case py_hash sender_id of
        Inl e \<Rightarrow> (Inl e, w)
      | Inr k \<Rightarrow>
          (let history_json = (case conversations w k of None \<Rightarrow> [] | Some h \<Rightarrow> h) in
           case history_contents env history_json [] of
             Inl e \<Rightarrow> (Inl e, w)
           | Inr cs \<Rightarrow>
               (case types_Part env user_text of
                  Inl e \<Rightarrow> (Inl e, w)
                | Inr user_part \<Rightarrow>
                    (case search_file_store env (cs @ [Content ''user'' [user_part]])
                            [''fileSearchStores/'' @ FILE_SEARCH_STORE_ID env]
                            ''gemini-2.5-flash'' SYSTEM_PROMPT_RESERVAS w of
                       (Inr respuesta, w') \<Rightarrow>
                         (Inr respuesta,
                          w'\<lparr>conversations := (conversations w')(k \<mapsto>
                               history_json @
                               [\<lparr>role = ''user'', turn_text = user_text\<rparr>,
                                \<lparr>role = ''model'', turn_text = JStr respuesta\<rparr>])\<rparr>)
                     | (Inl e, w') \<Rightarrow>
                         (Inr APOLOGY,
                          w'\<lparr>conversations := (conversations w')(k := None)\<rparr>)))))"

section \<open>Message delivery client\<close>

definition enviar_mensaje_whatsapp :: "env \<Rightarrow> json \<Rightarrow> string \<Rightarrow> world \<Rightarrow> json \<times> world" where
  "enviar_mensaje_whatsapp env to_number message w =
     (let w1 = w\<lparr>delivery_calls := delivery_calls w @ [(to_number, message)]\<rparr> in
      if WHATSAPP_TOKEN env = [] \<or> WHATSAPP_PHONE_ID env = [] then
        (JObj [(''error'', JStr (''Configuraci'' @ o_acute @
                 ''n WhatsApp faltante en variables de entorno.''))], w1)
      else
        (let req = \<lparr>url = ''https://graph.facebook.com/v19.0/'' @ WHATSAPP_PHONE_ID env @ ''/messages'',
                     headers = [(''Authorization'', ''Bearer '' @ WHATSAPP_TOKEN env),
                                (''Content-Type'', ''application/json'')],
                     json_payload = JObj [(''messaging_product'', JStr ''whatsapp''),
                                          (''to'', to_number),
                                          (''type'', JStr ''text''),
                                          (''text'', JObj [(''body'', JStr message)])],
                     timeout = 10\<rparr>
         in (case requests_post env (length (http_posts w1)) req of
               PostRaised e \<Rightarrow> JObj [(''error'', JStr e)]
             | RespJson j \<Rightarrow> j
             | RespNotJson c t \<Rightarrow> JObj [(''status_code'', JInt c), (''text'', JStr t)],
             w1\<lparr>http_posts := http_posts w1 @ [req]\<rparr>)))"

section \<open>Routes\<close>

subsection \<open>POST /query and POST /clear\<close>

text \<open>
  \<open>data\<close> is the value of \<^verbatim>\<open>request.json\<close>, once Flask has decoded the body. When
  there is no JSON body to decode, \<^verbatim>\<open>request.json\<close> raises inside Flask and the lines
  after it never run: such a request is not a value of \<open>data\<close>. An exception that leaves
  the view function is the result \<open>Inl e\<close>.
\<close>

definition MSG_QUERY_REQUIRED :: string where
  "MSG_QUERY_REQUIRED = ''Debe enviar un JSON con la clave '' @ [CHR 0x27] @ ''query'' @ [CHR 0x27] @ ''.''"

definition handle_query ::
  "env \<Rightarrow> json \<Rightarrow> session \<Rightarrow> world \<Rightarrow> (pyexn + response) \<times> session \<times> world" where
  "handle_query env data s w =
     (if \<not> py_truthy data then
        (Inr (Body_Json (JObj [(''error'', JStr MSG_QUERY_REQUIRED)]), 400), s, w)
      else
        (case py_in ''query'' data of
           Inl e \<Rightarrow> (Inl e, s, w)
         | Inr False \<Rightarrow>
             (Inr (Body_Json (JObj [(''error'', JStr MSG_QUERY_REQUIRED)]), 400), s, w)
         | Inr True \<Rightarrow>
             (case py_get data ''query'' JNull of
                Inl e \<Rightarrow> (Inl e, s, w)
              | Inr user_query \<Rightarrow>
                  (let history_json = (case s ''chat_history'' of None \<Rightarrow> [] | Some h \<Rightarrow> h) in
                   case history_contents env history_json [] of
                     Inl e \<Rightarrow> (Inl e, s, w)
                   | Inr cs \<Rightarrow>
                       (case types_Part env user_query of
                          Inl e \<Rightarrow> (Inl e, s, w)
                        | Inr user_part \<Rightarrow>
                            (case search_file_store env (cs @ [Content ''user'' [user_part]])
                                    [FILE_SEARCH_STORE_ID env]
                                    ''gemini-2.5-flash'' SYSTEM_PROMPT_RESERVAS w of
                               (Inr gemini_response_text, w') \<Rightarrow>
                                 (Inr (Body_Json (JObj
                                    [(''response'', JStr gemini_response_text),
                                     (''agent_role'', JStr ''Agente de Reservas del Hotel''),
                                     (''status'', JStr (''Memoria gestionada por la API (cookie de sesi'' @
                                         o_acute @ ''n)''))]), 200),
                                  s(''chat_history'' \<mapsto>
                                      history_json @
                                      [\<lparr>role = ''user'', turn_text = user_query\<rparr>,
                                       \<lparr>role = ''model'', turn_text = JStr gemini_response_text\<rparr>]),
                                  w')
                             | (Inl e, w') \<Rightarrow>
                                 (Inr (Body_Json (JObj
                                    [(''error'', JStr (''Ocurri'' @ o_acute @ '' un error en la API de Gemini.'')),
                                     (''details'', JStr e)]), 500),
                                  s(''chat_history'' := None),
                                  w')))))))"

definition clear_history :: "session \<Rightarrow> response \<times> session" where
  "clear_history s =
     ((Body_Json (JObj [(''status'', JStr (''Historial de conversaci'' @ o_acute @
          ''n limpiado. Nueva sesi'' @ o_acute @ ''n iniciada.''))]), 200),
      s(''chat_history'' := None))"

subsection \<open>GET /webhook\<close>

text \<open>\<open>args\<close> is \<^verbatim>\<open>request.args\<close>; \<^verbatim>\<open>args.get(k)\<close> is \<^verbatim>\<open>None\<close> for a missing parameter.\<close>

definition py_str_or_none :: "string option \<Rightarrow> body" where
  "py_str_or_none v = (case v of None \<Rightarrow> Body_None | Some t \<Rightarrow> Body_Str t)"

definition whatsapp_verify :: "env \<Rightarrow> (string \<rightharpoonup> string) \<Rightarrow> response" where
  "whatsapp_verify env args =
     (let mode = args ''hub.mode'';
          token = args ''hub.verify_token'';
          challenge = args ''hub.challenge''
      in if mode = Some ''subscribe'' \<and> token = Some (WHATSAPP_VERIFY_TOKEN env)
         then (py_str_or_none challenge, 200)
         else (Body_Str ''Verification token mismatch'', 403))"

subsection \<open>POST /webhook\<close>

text \<open>
  A \<^verbatim>\<open>for\<close> loop over a list whose body may raise: the first exception ends the loop,
  and what the earlier iterations did to the state stays.
\<close>

fun for_each :: "(json \<Rightarrow> world \<Rightarrow> pyexn option \<times> world) \<Rightarrow> json list \<Rightarrow> world \<Rightarrow> pyexn option \<times> world" where
  "for_each f [] w = (None, w)"
| "for_each f (x # xs) w =
     (case f x w of
        (Some e, w') \<Rightarrow> (Some e, w')
      | (None, w') \<Rightarrow> for_each f xs w')"

text \<open>\<^verbatim>\<open>str(v)\<close> inside the f-string.\<close>

definition py_str :: "env \<Rightarrow> json \<Rightarrow> string" where
  "py_str env v =
     (case v of
        JStr s \<Rightarrow> s
      | JNull \<Rightarrow> ''None''
      | JBool b \<Rightarrow> (if b then ''True'' else ''False'')
      | _ \<Rightarrow> py_repr env v)"

text \<open>
  The \<^verbatim>\<open>if mtype == "text": ... else: ...\<close> of the loop body, which computes
  \<^verbatim>\<open>user_text\<close>.
\<close>

definition message_user_text :: "env \<Rightarrow> json \<Rightarrow> json \<Rightarrow> pyexn + json" where
  "message_user_text env message mtype =
     (if mtype = JStr ''text''
      then (case py_getitem message ''text'' of
              Inl e \<Rightarrow> Inl e
            | Inr t \<Rightarrow> py_get t ''body'' (JStr []))
      else Inr (JStr (''[Tipo de mensaje '' @ py_str env mtype @ '' no soportado por ahora]'')))"

text \<open>The body of \<^verbatim>\<open>for message in messages\<close>.\<close>

definition webhook_message :: "env \<Rightarrow> json \<Rightarrow> world \<Rightarrow> pyexn option \<times> world" where
  "webhook_message env message w =
     (case py_get message ''from'' JNull of
        Inl e \<Rightarrow> (Some e, w)
      | Inr sender \<Rightarrow>
          if \<not> py_truthy sender then (None, w)
          else
            (case py_get message ''type'' JNull of
               Inl e \<Rightarrow> (Some e, w)
             | Inr mtype \<Rightarrow>
                 (case message_user_text env message mtype of
                    Inl e \<Rightarrow> (Some e, w)
                  | Inr user_text \<Rightarrow>
                      (case procesar_con_gemini_for_sender env sender user_text w of
                         (Inl e, w') \<Rightarrow> (Some e, w')
                       | (Inr bot_response, w') \<Rightarrow>
                           (None, snd (enviar_mensaje_whatsapp env sender bot_response w'))))))"

text \<open>The body of \<^verbatim>\<open>for change in changes\<close>.\<close>

definition webhook_change :: "env \<Rightarrow> json \<Rightarrow> world \<Rightarrow> pyexn option \<times> world" where
  "webhook_change env change w =
     (case py_get change ''value'' (JObj []) of
        Inl e \<Rightarrow> (Some e, w)
      | Inr val \<Rightarrow>
          (case py_get val ''messages'' (JArr []) of
             Inl e \<Rightarrow> (Some e, w)
           | Inr m \<Rightarrow>
               (case py_iter (if py_truthy m then m else JArr []) of
                  Inl e \<Rightarrow> (Some e, w)
                | Inr messages \<Rightarrow> for_each (webhook_message env) messages w)))"

text \<open>The body of \<^verbatim>\<open>for entry in entries\<close>.\<close>

definition webhook_entry :: "env \<Rightarrow> json \<Rightarrow> world \<Rightarrow> pyexn option \<times> world" where
  "webhook_entry env entry w =
     (case py_get entry ''changes'' (JArr []) of
        Inl e \<Rightarrow> (Some e, w)
      | Inr c \<Rightarrow>
          (case py_iter c of
             Inl e \<Rightarrow> (Some e, w)
           | Inr changes \<Rightarrow> for_each (webhook_change env) changes w))"

text \<open>\<open>payload\<close> is the value of \<^verbatim>\<open>request.get_json(silent=True)\<close>.\<close>

definition whatsapp_webhook :: "env \<Rightarrow> json \<Rightarrow> world \<Rightarrow> response \<times> world" where
  "whatsapp_webhook env payload w =
     (if \<not> py_truthy payload then ((Body_Str ''no payload'', 400), w)
      else
        (case (case py_get payload ''entry'' (JArr []) of
                 Inl e \<Rightarrow> (Some e, w)
               | Inr en \<Rightarrow>
                   (case py_iter en of
                      Inl e \<Rightarrow> (Some e, w)
                    | Inr entries \<Rightarrow> for_each (webhook_entry env) entries w)) of
           (None, w') \<Rightarrow> ((Body_Str ''EVENT_RECEIVED'', 200), w')
         | (Some e, w') \<Rightarrow> ((Body_Str ''error'', 500), w')))"

subsection \<open>The route table\<close>

text \<open>
  What Flask does with the value a view returns: a body that is \<^verbatim>\<open>None\<close> is not a
  response, Flask raises \<^verbatim>\<open>TypeError\<close> for it (and answers 500). Of the four views only
  \<^verbatim>\<open>whatsapp_verify\<close> can return such a body, when \<^verbatim>\<open>hub.challenge\<close> is missing.
\<close>

definition flask_response :: "response \<Rightarrow> pyexn + response" where
  "flask_response rv = (case fst rv of Body_None \<Rightarrow> Inl TypeError | _ \<Rightarrow> Inr rv)"

text \<open>
  The four \<^verbatim>\<open>@app.route\<close> decorators, for the methods they list. A request carries its
  method and path, the query parameters and the decoded JSON body (the value the view's
  accessor gives); \<open>None\<close> is a request none of the four rules matches.
\<close>

record request =
  req_method :: string
  req_path :: string
  req_args :: "string \<rightharpoonup> string"
  req_json :: json

definition app ::
  "env \<Rightarrow> request \<Rightarrow> session \<Rightarrow> world \<Rightarrow> ((pyexn + response) \<times> session \<times> world) option" where
  "app env req s w =
     (if req_path req = ''/query'' \<and> req_method req = ''POST'' then
        Some (handle_query env (req_json req) s w)
      else if req_path req = ''/clear'' \<and> req_method req = ''POST'' then
        (case clear_history s of (r, s') \<Rightarrow> Some (Inr r, s', w))
      else if req_path req = ''/webhook'' \<and> req_method req = ''GET'' then
        Some (flask_response (whatsapp_verify env (req_args req)), s, w)
      else if req_path req = ''/webhook'' \<and> req_method req = ''POST'' then
        (case whatsapp_webhook env (req_json req) w of (r, w') \<Rightarrow> Some (Inr r, s, w'))
      else None)"

section \<open>Reading an event envelope\<close>

text \<open>
  The three loop headers of \<^verbatim>\<open>whatsapp_webhook\<close>, each as the list its \<^verbatim>\<open>for\<close>
  iterates over (or the exception raised on the way):
  \<^verbatim>\<open>payload.get("entry", [])\<close>, \<^verbatim>\<open>entry.get("changes", [])\<close> and
  \<^verbatim>\<open>change.get("value", {}).get("messages", []) or []\<close>.
\<close>

definition payload_entries :: "json \<Rightarrow> pyexn + json list" where
  "payload_entries payload =
     (case py_get payload ''entry'' (JArr []) of
        Inl e \<Rightarrow> Inl e
      | Inr en \<Rightarrow> py_iter en)"

definition entry_changes :: "json \<Rightarrow> pyexn + json list" where
  "entry_changes entry =
     (case py_get entry ''changes'' (JArr []) of
        Inl e \<Rightarrow> Inl e
      | Inr c \<Rightarrow> py_iter c)"

definition change_messages :: "json \<Rightarrow> pyexn + json list" where
  "change_messages change =
     (case py_get change ''value'' (JObj []) of
        Inl e \<Rightarrow> Inl e
      | Inr val \<Rightarrow>
          (case py_get val ''messages'' (JArr []) of
             Inl e \<Rightarrow> Inl e
           | Inr m \<Rightarrow> py_iter (if py_truthy m then m else JArr [])))"

text \<open>
  All the lists \<open>g x\<close> for \<open>x\<close> in \<open>xs\<close>, one after the other; \<open>None\<close> when some
  \<open>g x\<close> raises.
\<close>

fun collect :: "(json \<Rightarrow> pyexn + json list) \<Rightarrow> json list \<Rightarrow> json list option" where
  "collect g [] = Some []"
| "collect g (x # xs) =
     (case g x of
        Inl e \<Rightarrow> None
      | Inr ys \<Rightarrow> (case collect g xs of None \<Rightarrow> None | Some zs \<Rightarrow> Some (ys @ zs)))"

text \<open>
  The messages of a payload in the order the nested loops reach them, when every entry
  and every change of the payload can be read; \<open>None\<close> when reading one of them raises.
\<close>

definition payload_messages :: "json \<Rightarrow> json list option" where
  "payload_messages payload =
     (case payload_entries payload of
        Inl e \<Rightarrow> None
      | Inr entries \<Rightarrow>
          (case collect entry_changes entries of
             None \<Rightarrow> None
           | Some changes \<Rightarrow> collect change_messages changes))"

fun is_str :: "json \<Rightarrow> bool" where
  "is_str (JStr s) = True"
| "is_str _ = False"

text \<open>
  \<open>m\<close> is a text message from the sender \<open>sid\<close> with body \<open>b\<close>: a dict whose
  \<^verbatim>\<open>from\<close> is the non-empty string \<open>sid\<close>, whose \<^verbatim>\<open>type\<close> is \<^verbatim>\<open>"text"\<close> and whose
  \<^verbatim>\<open>text\<close> is a dict with the body \<open>b\<close> (a missing body reads as the empty string).
\<close>

definition text_message :: "json \<Rightarrow> string \<Rightarrow> string \<Rightarrow> bool" where
  "text_message m sid b =
     (case m of
        JObj kvs \<Rightarrow>
          map_of kvs ''from'' = Some (JStr sid) \<and> sid \<noteq> [] \<and>
          map_of kvs ''type'' = Some (JStr ''text'') \<and>
          (case map_of kvs ''text'' of
             Some (JObj t) \<Rightarrow> (case map_of t ''body'' of None \<Rightarrow> b = [] | Some v \<Rightarrow> v = JStr b)
           | _ \<Rightarrow> False)
      | _ \<Rightarrow> False)"

text \<open>
  A message the loop body can read: a dict whose sender is missing or falsy (the
  message is skipped), or hashable; and when its type is \<^verbatim>\<open>"text"\<close>, its \<^verbatim>\<open>text\<close> is a
  dict whose body is missing or a string.
\<close>

definition message_ok :: "json \<Rightarrow> bool" where
  "message_ok m =
     (case m of
        JObj kvs \<Rightarrow>
          (case map_of kvs ''from'' of
             None \<Rightarrow> True
           | Some sender \<Rightarrow>
               \<not> py_truthy sender \<or>
               (py_hash sender \<noteq> Inl TypeError \<and>
                (map_of kvs ''type'' = Some (JStr ''text'') \<longrightarrow>
                   (case map_of kvs ''text'' of
                      Some (JObj t) \<Rightarrow> (case map_of t ''body'' of None \<Rightarrow> True | Some v \<Rightarrow> is_str v)
                    | _ \<Rightarrow> False))))
      | _ \<Rightarrow> False)"

text \<open>Every text kept in the conversation store is a string.\<close>

definition string_histories :: "world \<Rightarrow> bool" where
  "string_histories w = (\<forall>k h. conversations w k = Some h \<longrightarrow> (\<forall>t \<in> set h. is_str (turn_text t)))"

section \<open>A concrete configuration\<close>

text \<open>
  The configuration used for the concrete runs below: the default store id and verify
  token of the source, both WhatsApp secrets set, a messaging API that answers with an
  empty JSON object, and a generation provider \<open>g\<close> chosen per run.
\<close>

definition demo_env :: "(nat \<Rightarrow> gen_request \<Rightarrow> string + string) \<Rightarrow> env" where
  "demo_env g =
     \<lparr>FILE_SEARCH_STORE_ID = ''hotelknowledgebasestore2-g76jm0ml54f0'',
      WHATSAPP_TOKEN = ''token'',
      WHATSAPP_VERIFY_TOKEN = ''verify123'',
      WHATSAPP_PHONE_ID = ''1055'',
      generate_content = g,
      requests_post = (\<lambda>n r. RespJson (JObj [])),
      Part_accepts = (\<lambda>v. v = JNull),
      py_repr = (\<lambda>v. ''?'')\<rparr>"

definition empty_world :: world where
  "empty_world = \<lparr>conversations = Map.empty, gen_calls = [], delivery_calls = [], http_posts = []\<rparr>"

definition greeting_session :: session where
  "greeting_session =
     [''chat_history'' \<mapsto> [\<lparr>role = ''user'', turn_text = JStr ''hola''\<rparr>,
                            \<lparr>role = ''model'', turn_text = JStr ''Bienvenido''\<rparr>]]"

text \<open>One WhatsApp event: a single text message with body \<open>b\<close> from the sender \<open>sid\<close>.\<close>

definition text_event :: "string \<Rightarrow> string \<Rightarrow> json" where
  "text_event sid b =
     JObj [(''from'', JStr sid),
           (''id'', JStr ''wamid.1''),
           (''type'', JStr ''text''),
           (''text'', JObj [(''body'', JStr b)])]"

definition text_payload :: "string \<Rightarrow> string \<Rightarrow> json" where
  "text_payload sid b =
     JObj [(''object'', JStr ''whatsapp_business_account''),
           (''entry'', JArr [JObj
              [(''id'', JStr ''0''),
               (''changes'', JArr [JObj
                  [(''field'', JStr ''messages''),
                   (''value'', JObj
                      [(''messaging_product'', JStr ''whatsapp''),
                       (''messages'', JArr [text_event sid b])])]])]])]"

text \<open>A state in which the sender \<^verbatim>\<open>51999000111\<close> already has a conversation.\<close>

definition returning_world :: world where
  "returning_world =
     \<lparr>conversations =
        [KStr ''51999000111'' \<mapsto> [\<lparr>role = ''user'', turn_text = JStr ''hola''\<rparr>,
                                  \<lparr>role = ''model'', turn_text = JStr ''Bienvenido''\<rparr>]],
      gen_calls = [], delivery_calls = [], http_posts = []\<rparr>"

section \<open>POST /query\<close>

lemma py_in_dict_key: "map_of kvs k = Some v \<Longrightarrow> py_in k (JObj kvs) = Inr True"
  by (auto dest: map_of_SomeD intro: rev_image_eqI)

text \<open>
  C1. A body that is a JSON object with a \<^verbatim>\<open>query\<close> field, and a generation call that
  is made and returns \<open>reply\<close>: the view returns status 200 with a JSON body whose
  \<^verbatim>\<open>response\<close> field is \<open>reply\<close>, and the session's history afterwards is the
  history before, followed by the user turn and then the model turn: two turns longer.
\<close>

theorem handle_query_success:
  assumes "data = JObj kvs" and "map_of kvs ''query'' = Some q"
      and "handle_query env data s w = (r, s', w')"
      and "gen_calls w' = gen_calls w @ [req]"
      and "generate_content env (length (gen_calls w)) req = Inr reply"
  shows "(\<exists>rest. r = Inr (Body_Json (JObj ((''response'', JStr reply) # rest)), 200)) \<and>
         s' ''chat_history'' =
           Some ((case s ''chat_history'' of None \<Rightarrow> [] | Some h \<Rightarrow> h) @
                 [\<lparr>role = ''user'', turn_text = q\<rparr>, \<lparr>role = ''model'', turn_text = JStr reply\<rparr>]) \<and>
         length (case s' ''chat_history'' of None \<Rightarrow> [] | Some h \<Rightarrow> h) =
           length (case s ''chat_history'' of None \<Rightarrow> [] | Some h \<Rightarrow> h) + 2"
  using assms py_in_dict_key[OF assms(2)]
  by (auto simp: handle_query_def search_file_store_def Let_def
           split: if_splits sum.splits bool.splits)

theorem handle_query_success_witness:
  "fst (handle_query (demo_env (\<lambda>n r. Inr ''Si, hay piscina.''))
          (JObj [(''query'', JStr ''Hay piscina?'')]) greeting_session empty_world) =
     Inr (Body_Json (JObj [(''response'', JStr ''Si, hay piscina.''),
                           (''agent_role'', JStr ''Agente de Reservas del Hotel''),
                           (''status'', JStr (''Memoria gestionada por la API (cookie de sesi'' @
                                        o_acute @ ''n)''))]), 200) \<and>
   fst (snd (handle_query (demo_env (\<lambda>n r. Inr ''Si, hay piscina.''))
          (JObj [(''query'', JStr ''Hay piscina?'')]) greeting_session empty_world)) ''chat_history'' =
     Some [\<lparr>role = ''user'', turn_text = JStr ''hola''\<rparr>,
           \<lparr>role = ''model'', turn_text = JStr ''Bienvenido''\<rparr>,
           \<lparr>role = ''user'', turn_text = JStr ''Hay piscina?''\<rparr>,
           \<lparr>role = ''model'', turn_text = JStr ''Si, hay piscina.''\<rparr>]"
proof -
  let ?env = "demo_env (\<lambda>n r. Inr ''Si, hay piscina.'')"
  let ?kvs = "[(''query'', JStr ''Hay piscina?'')]"
  let ?run = "handle_query ?env (JObj ?kvs) greeting_session empty_world"
  let ?req = "\<lparr>model = ''gemini-2.5-flash'',
               contents = [Content ''user'' [Part (JStr ''hola'')],
                           Content ''model'' [Part (JStr ''Bienvenido'')],
                           Content ''user'' [Part (JStr ''Hay piscina?'')]],
               system_instruction = SYSTEM_PROMPT_RESERVAS,
               file_search_store_names = [''hotelknowledgebasestore2-g76jm0ml54f0'']\<rparr>"
  have run: "?run = (fst ?run, fst (snd ?run), snd (snd ?run))"
    by simp
  have q: "map_of ?kvs ''query'' = Some (JStr ''Hay piscina?'')"
    by simp
  have call: "gen_calls (snd (snd ?run)) = gen_calls empty_world @ [?req]"
    by (simp add: handle_query_def search_file_store_def Let_def demo_env_def empty_world_def
                  greeting_session_def types_Part_def)
  have ok: "generate_content ?env (length (gen_calls empty_world)) ?req = Inr ''Si, hay piscina.''"
    by (simp add: demo_env_def)
  have r: "fst ?run =
     Inr (Body_Json (JObj [(''response'', JStr ''Si, hay piscina.''),
                           (''agent_role'', JStr ''Agente de Reservas del Hotel''),
                           (''status'', JStr (''Memoria gestionada por la API (cookie de sesi'' @
                                        o_acute @ ''n)''))]), 200)"
    by (simp add: handle_query_def search_file_store_def Let_def demo_env_def empty_world_def
                  greeting_session_def types_Part_def)
  from handle_query_success[OF refl q run call ok] r show ?thesis
    by (simp add: greeting_session_def)
qed

text \<open>
  C2. Whatever the request, a generation call that is made and raises (with message
  \<open>e\<close>) leaves the session without any \<^verbatim>\<open>chat_history\<close> entry, and the view returns
  status 500 with a JSON body of exactly the two fields \<^verbatim>\<open>error\<close> and \<^verbatim>\<open>details\<close>.
\<close>

theorem handle_query_failure:
  assumes "handle_query env data s w = (r, s', w')"
      and "gen_calls w' = gen_calls w @ [req]"
      and "generate_content env (length (gen_calls w)) req = Inl e"
  shows "(\<exists>m. r = Inr (Body_Json (JObj [(''error'', JStr m), (''details'', JStr e)]), 500)) \<and>
         s' ''chat_history'' = None"
  using assms
  by (auto simp: handle_query_def search_file_store_def Let_def
           split: if_splits sum.splits bool.splits)

theorem handle_query_failure_witness:
  "fst (handle_query (demo_env (\<lambda>n r. Inl ''429 quota''))
          (JObj [(''query'', JStr ''Hay piscina?'')]) greeting_session empty_world) =
     Inr (Body_Json (JObj [(''error'', JStr (''Ocurri'' @ o_acute @ '' un error en la API de Gemini.'')),
                           (''details'', JStr ''429 quota'')]), 500) \<and>
   fst (snd (handle_query (demo_env (\<lambda>n r. Inl ''429 quota''))
          (JObj [(''query'', JStr ''Hay piscina?'')]) greeting_session empty_world)) ''chat_history'' =
     None"
proof -
  let ?env = "demo_env (\<lambda>n r. Inl ''429 quota'')"
  let ?run = "handle_query ?env (JObj [(''query'', JStr ''Hay piscina?'')]) greeting_session empty_world"
  let ?req = "\<lparr>model = ''gemini-2.5-flash'',
               contents = [Content ''user'' [Part (JStr ''hola'')],
                           Content ''model'' [Part (JStr ''Bienvenido'')],
                           Content ''user'' [Part (JStr ''Hay piscina?'')]],
               system_instruction = SYSTEM_PROMPT_RESERVAS,
               file_search_store_names = [''hotelknowledgebasestore2-g76jm0ml54f0'']\<rparr>"
  have run: "?run = (fst ?run, fst (snd ?run), snd (snd ?run))"
    by simp
  have call: "gen_calls (snd (snd ?run)) = gen_calls empty_world @ [?req]"
    by (simp add: handle_query_def search_file_store_def Let_def demo_env_def empty_world_def
                  greeting_session_def types_Part_def)
  have bad: "generate_content ?env (length (gen_calls empty_world)) ?req = Inl ''429 quota''"
    by (simp add: demo_env_def)
  have r: "fst ?run =
     Inr (Body_Json (JObj [(''error'', JStr (''Ocurri'' @ o_acute @ '' un error en la API de Gemini.'')),
                           (''details'', JStr ''429 quota'')]), 500)"
    by (simp add: handle_query_def search_file_store_def Let_def demo_env_def empty_world_def
                  greeting_session_def types_Part_def)
  from handle_query_failure[OF run call bad] r show ?thesis
    by simp
qed

text \<open>
  C3, as stated, asks for a 400 also when \<^verbatim>\<open>query\<close> is the empty string. The guard of
  the view tests that the key is there, not that its value is non-empty: with the body
  \<^verbatim>\<open>{"query": ""}\<close> the generation provider is called with an empty user text, and when
  it answers the view returns 200 and records the two turns.
\<close>

theorem handle_query_empty_query_counterexample:
  "handle_query (demo_env (\<lambda>n r. Inr ''ok'')) (JObj [(''query'', JStr [])]) Map.empty empty_world =
     (Inr (Body_Json (JObj [(''response'', JStr ''ok''),
                            (''agent_role'', JStr ''Agente de Reservas del Hotel''),
                            (''status'', JStr (''Memoria gestionada por la API (cookie de sesi'' @
                                         o_acute @ ''n)''))]), 200),
      [''chat_history'' \<mapsto> [\<lparr>role = ''user'', turn_text = JStr []\<rparr>,
                             \<lparr>role = ''model'', turn_text = JStr ''ok''\<rparr>]],
      empty_world\<lparr>gen_calls :=
        [\<lparr>model = ''gemini-2.5-flash'', contents = [Content ''user'' [Part (JStr [])]],
          system_instruction = SYSTEM_PROMPT_RESERVAS,
          file_search_store_names = [''hotelknowledgebasestore2-g76jm0ml54f0'']\<rparr>]\<rparr>)"
  by (simp add: handle_query_def search_file_store_def Let_def demo_env_def empty_world_def types_Part_def)

text \<open>
  C3, amended. When the value decoded from the body is falsy (\<^verbatim>\<open>null\<close>, \<^verbatim>\<open>{}\<close>, \<^verbatim>\<open>[]\<close>,
  \<^verbatim>\<open>0\<close>, \<^verbatim>\<open>false\<close>, \<^verbatim>\<open>""\<close>) or is a JSON object without the key \<^verbatim>\<open>query\<close>, the view
  returns status 400 with an error body; the session and the state are unchanged, so no
  generation call is made. Nothing is said of a request without a JSON body, which
  Flask answers before the guard of the view is reached.
\<close>

theorem handle_query_rejects_missing_query:
  assumes "\<not> py_truthy data \<or> (\<exists>kvs. data = JObj kvs \<and> map_of kvs ''query'' = None)"
  shows "handle_query env data s w =
           (Inr (Body_Json (JObj [(''error'', JStr MSG_QUERY_REQUIRED)]), 400), s, w)"
  using assms by (auto simp: handle_query_def map_of_eq_None_iff)

theorem handle_query_rejects_missing_query_witness:
  "handle_query (demo_env (\<lambda>n r. Inr ''ok'')) JNull greeting_session empty_world =
     (Inr (Body_Json (JObj [(''error'', JStr MSG_QUERY_REQUIRED)]), 400), greeting_session, empty_world) \<and>
   handle_query (demo_env (\<lambda>n r. Inr ''ok'')) (JObj [(''question'', JStr ''Hay piscina?'')])
       greeting_session empty_world =
     (Inr (Body_Json (JObj [(''error'', JStr MSG_QUERY_REQUIRED)]), 400), greeting_session, empty_world)"
proof -
  have absent: "\<not> py_truthy JNull \<or> (\<exists>kvs. JNull = JObj kvs \<and> map_of kvs ''query'' = None)"
    by simp
  have no_key: "\<not> py_truthy (JObj [(''question'', JStr ''Hay piscina?'')]) \<or>
                (\<exists>kvs. JObj [(''question'', JStr ''Hay piscina?'')] = JObj kvs \<and> map_of kvs ''query'' = None)"
    by simp
  from handle_query_rejects_missing_query[OF absent] handle_query_rejects_missing_query[OF no_key]
  show ?thesis by simp
qed

section \<open>POST /webhook: the payload check\<close>

text \<open>
  C8. With no JSON body the payload is \<^verbatim>\<open>None\<close>: the view returns status 400 with the
  text \<^verbatim>\<open>no payload\<close>, and the state (the conversation store and the trace of outbound
  calls) is what it was.
\<close>

theorem whatsapp_webhook_no_payload:
  "whatsapp_webhook env JNull w = ((Body_Str ''no payload'', 400), w)"
  by (simp add: whatsapp_webhook_def)

lemma whatsapp_webhook_truthy_status:
  "py_truthy payload \<Longrightarrow> snd (fst (whatsapp_webhook env payload w)) \<noteq> 400"
  by (auto simp: whatsapp_webhook_def split: sum.splits prod.splits option.splits)

text \<open>
  C10. The view answers \<^verbatim>\<open>no payload\<close> with status 400 exactly when the decoded payload
  is falsy; in particular for \<^verbatim>\<open>{}\<close>, \<^verbatim>\<open>[]\<close>, \<^verbatim>\<open>null\<close>, \<^verbatim>\<open>false\<close> and \<^verbatim>\<open>0\<close>, and then
  the state is unchanged.
\<close>

theorem whatsapp_webhook_falsy_payload:
  "(fst (whatsapp_webhook env payload w) = (Body_Str ''no payload'', 400)) = (\<not> py_truthy payload) \<and>
   (payload \<in> set [JObj [], JArr [], JNull, JBool False, JInt 0] \<longrightarrow>
      whatsapp_webhook env payload w = ((Body_Str ''no payload'', 400), w))"
  using whatsapp_webhook_truthy_status[of payload env w]
  by (auto simp: whatsapp_webhook_def)

theorem whatsapp_webhook_falsy_payload_witness:
  "whatsapp_webhook (demo_env (\<lambda>n r. Inr ''ok'')) (JObj []) empty_world =
     ((Body_Str ''no payload'', 400), empty_world)"
  using whatsapp_webhook_falsy_payload[of "demo_env (\<lambda>n r. Inr ''ok'')" "JObj []" empty_world]
  by simp

section \<open>POST /clear\<close>

text \<open>
  C9. \<^verbatim>\<open>clear_history\<close> returns status 200 for every session and leaves it without a
  \<^verbatim>\<open>chat_history\<close> entry; a second call returns the same response and the same session,
  so a repeated call cannot fail; through the route table the view ends without an
  exception. After it, the generation request that \<^verbatim>\<open>/query\<close> builds holds the new user
  text and no earlier turn; and for a string query the call is indeed made.
\<close>

theorem clear_history_then_query:
  "snd (fst (clear_history s)) = 200 \<and>
   snd (clear_history s) ''chat_history'' = None \<and>
   clear_history (snd (clear_history s)) = clear_history s \<and>
   (req_method rq = ''POST'' \<and> req_path rq = ''/clear'' \<longrightarrow>
      (\<exists>b. app env rq s w = Some (Inr (b, 200), snd (clear_history s), w))) \<and>
   (map_of kvs ''query'' = Some q \<longrightarrow>
    handle_query env (JObj kvs) (snd (clear_history s)) w = (r, s', w') \<longrightarrow>
    gen_calls w' = gen_calls w @ [req] \<longrightarrow>
      contents req = [Content ''user'' [Part q]]) \<and>
   (map_of kvs ''query'' = Some (JStr t) \<longrightarrow>
      gen_calls (snd (snd (handle_query env (JObj kvs) (snd (clear_history s)) w))) =
        gen_calls w @
        [\<lparr>model = ''gemini-2.5-flash'', contents = [Content ''user'' [Part (JStr t)]],
          system_instruction = SYSTEM_PROMPT_RESERVAS,
          file_search_store_names = [FILE_SEARCH_STORE_ID env]\<rparr>])"
proof -
  have a: "snd (fst (clear_history s)) = 200"
    by (simp add: clear_history_def)
  have b: "snd (clear_history s) ''chat_history'' = None"
    by (simp add: clear_history_def)
  have c: "clear_history (snd (clear_history s)) = clear_history s"
    by (simp add: clear_history_def)
  have d: "req_method rq = ''POST'' \<and> req_path rq = ''/clear'' \<longrightarrow>
      (\<exists>b. app env rq s w = Some (Inr (b, 200), snd (clear_history s), w))"
    by (simp add: app_def clear_history_def)
  have e: "map_of kvs ''query'' = Some q \<longrightarrow>
    handle_query env (JObj kvs) (snd (clear_history s)) w = (r, s', w') \<longrightarrow>
    gen_calls w' = gen_calls w @ [req] \<longrightarrow>
      contents req = [Content ''user'' [Part q]]"
  proof (intro impI)
    assume q: "map_of kvs ''query'' = Some q"
       and run: "handle_query env (JObj kvs) (snd (clear_history s)) w = (r, s', w')"
       and call: "gen_calls w' = gen_calls w @ [req]"
    from run call py_in_dict_key[OF q] q b show "contents req = [Content ''user'' [Part q]]"
      by (auto simp: handle_query_def search_file_store_def Let_def types_Part_def
               split: if_splits sum.splits bool.splits json.splits)
  qed
  have f: "map_of kvs ''query'' = Some (JStr t) \<longrightarrow>
      gen_calls (snd (snd (handle_query env (JObj kvs) (snd (clear_history s)) w))) =
        gen_calls w @
        [\<lparr>model = ''gemini-2.5-flash'', contents = [Content ''user'' [Part (JStr t)]],
          system_instruction = SYSTEM_PROMPT_RESERVAS,
          file_search_store_names = [FILE_SEARCH_STORE_ID env]\<rparr>]"
  proof
    assume q: "map_of kvs ''query'' = Some (JStr t)"
    then have ne: "kvs \<noteq> []" by auto
    from py_in_dict_key[OF q] q b ne show "gen_calls (snd (snd (handle_query env (JObj kvs) (snd (clear_history s)) w))) =
        gen_calls w @
        [\<lparr>model = ''gemini-2.5-flash'', contents = [Content ''user'' [Part (JStr t)]],
          system_instruction = SYSTEM_PROMPT_RESERVAS,
          file_search_store_names = [FILE_SEARCH_STORE_ID env]\<rparr>]"
      by (auto simp: handle_query_def search_file_store_def Let_def types_Part_def
               split: sum.splits)
  qed
  from a b c d e f show ?thesis by blast
qed

theorem clear_history_then_query_witness:
  "snd (fst (clear_history greeting_session)) = 200 \<and>
   snd (clear_history greeting_session) ''chat_history'' = None \<and>
   clear_history (snd (clear_history greeting_session)) = clear_history greeting_session \<and>
   gen_calls (snd (snd (handle_query (demo_env (\<lambda>n r. Inr ''Si, hay piscina.''))
       (JObj [(''query'', JStr ''Hay piscina?'')]) (snd (clear_history greeting_session)) empty_world))) =
     [\<lparr>model = ''gemini-2.5-flash'', contents = [Content ''user'' [Part (JStr ''Hay piscina?'')]],
       system_instruction = SYSTEM_PROMPT_RESERVAS,
       file_search_store_names = [''hotelknowledgebasestore2-g76jm0ml54f0'']\<rparr>]"
proof -
  let ?env = "demo_env (\<lambda>n r. Inr ''Si, hay piscina.'')"
  let ?kvs = "[(''query'', JStr ''Hay piscina?'')]"
  let ?run = "handle_query ?env (JObj ?kvs) (snd (clear_history greeting_session)) empty_world"
  let ?req = "\<lparr>model = ''gemini-2.5-flash'', contents = [Content ''user'' [Part (JStr ''Hay piscina?'')]],
       system_instruction = SYSTEM_PROMPT_RESERVAS,
       file_search_store_names = [''hotelknowledgebasestore2-g76jm0ml54f0'']\<rparr>"
  let ?rq = "\<lparr>req_method = ''POST'', req_path = ''/clear'', req_args = Map.empty, req_json = JNull\<rparr>"
  have route: "req_method ?rq = ''POST'' \<and> req_path ?rq = ''/clear''"
    by simp
  have q: "map_of ?kvs ''query'' = Some (JStr ''Hay piscina?'')"
    by simp
  have run: "?run = (fst ?run, fst (snd ?run), snd (snd ?run))"
    by simp
  have call: "gen_calls (snd (snd ?run)) = gen_calls empty_world @ [?req]"
    by (simp add: handle_query_def search_file_store_def Let_def demo_env_def empty_world_def
                  clear_history_def types_Part_def)
  from clear_history_then_query[of greeting_session ?rq ?env empty_world ?kvs "JStr ''Hay piscina?''"
         "fst ?run" "fst (snd ?run)" "snd (snd ?run)" ?req "''Hay piscina?''"]
       route q run call
  show ?thesis
    by (simp add: demo_env_def empty_world_def)
qed

section \<open>GET /webhook\<close>

text \<open>
  C7, as stated, speaks of every GET request. A request with the right mode and token
  but no \<^verbatim>\<open>hub.challenge\<close> has no challenge to echo: the view returns \<^verbatim>\<open>(None, 200)\<close>,
  which is not a response, and the request ends in a \<^verbatim>\<open>TypeError\<close> instead of a 200 that
  carries the challenge.
\<close>

theorem whatsapp_verify_missing_challenge_counterexample:
  "whatsapp_verify (demo_env (\<lambda>n r. Inr ''ok''))
      [''hub.mode'' \<mapsto> ''subscribe'', ''hub.verify_token'' \<mapsto> ''verify123''] = (Body_None, 200) \<and>
   app (demo_env (\<lambda>n r. Inr ''ok''))
      \<lparr>req_method = ''GET'', req_path = ''/webhook'',
       req_args = [''hub.mode'' \<mapsto> ''subscribe'', ''hub.verify_token'' \<mapsto> ''verify123''],
       req_json = JNull\<rparr> greeting_session empty_world =
     Some (Inl TypeError, greeting_session, empty_world)"
  by (simp add: whatsapp_verify_def py_str_or_none_def app_def flask_response_def demo_env_def)

text \<open>
  C7, amended. For a request that carries \<^verbatim>\<open>hub.challenge\<close> with the value \<open>c\<close>, the view
  returns \<open>c\<close> with status 200 exactly when \<^verbatim>\<open>hub.mode\<close> is \<^verbatim>\<open>subscribe\<close> and
  \<^verbatim>\<open>hub.verify_token\<close> is the configured token, and the route answers with that value.
  Whenever mode or token do not match, with or without a challenge, the view returns the
  text \<^verbatim>\<open>Verification token mismatch\<close> with status 403 and the route answers with it.
  In every case the route hands back the session and the process state as it received
  them.
\<close>

theorem whatsapp_verify_with_challenge:
  "(args ''hub.challenge'' = Some c \<longrightarrow>
      (whatsapp_verify env args = (Body_Str c, 200)) =
        (args ''hub.mode'' = Some ''subscribe'' \<and>
         args ''hub.verify_token'' = Some (WHATSAPP_VERIFY_TOKEN env))) \<and>
   (\<not> (args ''hub.mode'' = Some ''subscribe'' \<and>
        args ''hub.verify_token'' = Some (WHATSAPP_VERIFY_TOKEN env)) \<longrightarrow>
      whatsapp_verify env args = (Body_Str ''Verification token mismatch'', 403)) \<and>
   (req_method req = ''GET'' \<and> req_path req = ''/webhook'' \<longrightarrow>
      (\<exists>r. app env req s w = Some (r, s, w)) \<and>
      (req_args req ''hub.challenge'' = Some c \<or>
       \<not> (req_args req ''hub.mode'' = Some ''subscribe'' \<and>
          req_args req ''hub.verify_token'' = Some (WHATSAPP_VERIFY_TOKEN env)) \<longrightarrow>
         app env req s w = Some (Inr (whatsapp_verify env (req_args req)), s, w)))"
  by (auto simp: whatsapp_verify_def py_str_or_none_def app_def flask_response_def)

theorem whatsapp_verify_with_challenge_witness:
  "whatsapp_verify (demo_env (\<lambda>n r. Inr ''ok''))
      [''hub.mode'' \<mapsto> ''subscribe'', ''hub.verify_token'' \<mapsto> ''verify123'',
       ''hub.challenge'' \<mapsto> ''1158201444''] = (Body_Str ''1158201444'', 200) \<and>
   whatsapp_verify (demo_env (\<lambda>n r. Inr ''ok''))
      [''hub.mode'' \<mapsto> ''subscribe'', ''hub.verify_token'' \<mapsto> ''guess'',
       ''hub.challenge'' \<mapsto> ''1158201444''] = (Body_Str ''Verification token mismatch'', 403) \<and>
   app (demo_env (\<lambda>n r. Inr ''ok''))
      \<lparr>req_method = ''GET'', req_path = ''/webhook'',
       req_args = [''hub.mode'' \<mapsto> ''subscribe'', ''hub.verify_token'' \<mapsto> ''verify123'',
                   ''hub.challenge'' \<mapsto> ''1158201444''],
       req_json = JNull\<rparr> greeting_session empty_world =
     Some (Inr (Body_Str ''1158201444'', 200), greeting_session, empty_world)"
proof -
  let ?env = "demo_env (\<lambda>n r. Inr ''ok'')"
  let ?good = "[''hub.mode'' \<mapsto> ''subscribe'', ''hub.verify_token'' \<mapsto> ''verify123'',
                ''hub.challenge'' \<mapsto> ''1158201444'']"
  let ?bad = "[''hub.mode'' \<mapsto> ''subscribe'', ''hub.verify_token'' \<mapsto> ''guess'',
               ''hub.challenge'' \<mapsto> ''1158201444'']"
  let ?rq = "\<lparr>req_method = ''GET'', req_path = ''/webhook'', req_args = ?good, req_json = JNull\<rparr>"
  have c: "?good ''hub.challenge'' = Some ''1158201444''"
    by simp
  have match: "?good ''hub.mode'' = Some ''subscribe'' \<and>
               ?good ''hub.verify_token'' = Some (WHATSAPP_VERIFY_TOKEN ?env)"
    by (simp add: demo_env_def)
  have mismatch: "\<not> (?bad ''hub.mode'' = Some ''subscribe'' \<and>
                    ?bad ''hub.verify_token'' = Some (WHATSAPP_VERIFY_TOKEN ?env))"
    by (simp add: demo_env_def)
  have route: "req_method ?rq = ''GET'' \<and> req_path ?rq = ''/webhook''"
    by simp
  have rc: "req_args ?rq ''hub.challenge'' = Some ''1158201444''"
    by simp
  from whatsapp_verify_with_challenge[of ?good "''1158201444''" ?env ?rq greeting_session empty_world]
       whatsapp_verify_with_challenge[of ?bad "''1158201444''" ?env ?rq greeting_session empty_world]
       c match mismatch route rc
  show ?thesis
    by simp
qed

section \<open>The loops of POST /webhook\<close>

text \<open>
  When every entry and change of a truthy payload can be read, the three nested loops
  are one loop over \<open>payload_messages\<close>.
\<close>

lemma for_each_append:
  "for_each f (xs @ ys) w =
     (case for_each f xs w of (Some e, w') \<Rightarrow> (Some e, w') | (None, w') \<Rightarrow> for_each f ys w')"
  by (induction xs arbitrary: w) (auto split: prod.splits option.splits)

lemma for_each_collect:
  assumes body: "\<And>x w. f' x w = (case g x of Inl e \<Rightarrow> (Some e, w) | Inr zs \<Rightarrow> for_each f zs w)"
      and all: "collect g xs = Some ys"
  shows "for_each f' xs w = for_each f ys w"
  using all
proof (induction xs arbitrary: ys w)
  case Nil
  then show ?case by simp
next
  case (Cons x xs)
  then show ?case
    by (auto simp: body for_each_append split: sum.splits option.splits prod.splits)
qed

lemma webhook_change_messages:
  "webhook_change env c w =
     (case change_messages c of Inl e \<Rightarrow> (Some e, w) | Inr ms \<Rightarrow> for_each (webhook_message env) ms w)"
  by (simp add: webhook_change_def change_messages_def split: sum.splits)

lemma webhook_entry_changes:
  "webhook_entry env c w =
     (case entry_changes c of Inl e \<Rightarrow> (Some e, w) | Inr cs \<Rightarrow> for_each (webhook_change env) cs w)"
  by (simp add: webhook_entry_def entry_changes_def split: sum.splits)

lemma whatsapp_webhook_messages:
  assumes "py_truthy payload" and "payload_messages payload = Some ms"
  shows "whatsapp_webhook env payload w =
           (case for_each (webhook_message env) ms w of
              (None, w') \<Rightarrow> ((Body_Str ''EVENT_RECEIVED'', 200), w')
            | (Some e, w') \<Rightarrow> ((Body_Str ''error'', 500), w'))"
proof -
  from assms(2) obtain es cs where es: "payload_entries payload = Inr es"
      and cs: "collect entry_changes es = Some cs" and ms: "collect change_messages cs = Some ms"
    by (auto simp: payload_messages_def split: sum.splits option.splits)
  have "for_each (webhook_entry env) es w = for_each (webhook_change env) cs w"
    by (rule for_each_collect[OF webhook_entry_changes cs])
  also have "\<dots> = for_each (webhook_message env) ms w"
    by (rule for_each_collect[OF webhook_change_messages ms])
  finally have loop: "for_each (webhook_entry env) es w = for_each (webhook_message env) ms w" .
  from es assms(1) show ?thesis
    by (auto simp: whatsapp_webhook_def payload_entries_def loop split: sum.splits)
qed

lemma payload_messages_truthy:
  assumes "payload_messages payload = Some (m # ms)"
  shows "py_truthy payload"
proof (cases payload)
  case (JObj kvs)
  with assms show ?thesis
    by (cases kvs) (auto simp: payload_messages_def payload_entries_def)
qed (use assms in \<open>auto simp: payload_messages_def payload_entries_def\<close>)


text \<open>
  A message that can be read never makes the loop body raise, whatever the generation
  provider does, as long as the texts kept in the store are strings; and the loop body
  keeps them so.
\<close>

lemma types_Part_str: "is_str v \<Longrightarrow> types_Part env v = Inr (Part v)"
  by (cases v) (simp_all add: types_Part_def)

lemma history_contents_strs:
  "\<forall>t \<in> set h. is_str (turn_text t) \<Longrightarrow>
     history_contents env h acc = Inr (acc @ map (\<lambda>t. Content (role t) [Part (turn_text t)]) h)"
  by (induction h arbitrary: acc) (simp_all add: types_Part_str)

lemma py_hash_cases: "py_hash v \<noteq> Inl TypeError \<Longrightarrow> \<exists>k. py_hash v = Inr k"
  by (cases v) simp_all

lemma procesar_strs:
  assumes "py_hash sender = Inr k" and "is_str ut" and "string_histories w"
  shows "\<exists>r w'. procesar_con_gemini_for_sender env sender ut w = (Inr r, w') \<and> string_histories w'"
proof -
  let ?h = "case conversations w k of None \<Rightarrow> [] | Some h \<Rightarrow> h"
  have h: "\<forall>t \<in> set ?h. is_str (turn_text t)"
    using assms(3) unfolding string_histories_def
    by (cases "conversations w k") auto
  from assms h show ?thesis
    by (auto simp: procesar_con_gemini_for_sender_def Let_def history_contents_strs types_Part_str
                   search_file_store_def string_histories_def
             split: sum.splits option.splits)
qed

lemma enviar_conversations:
  "conversations (snd (enviar_mensaje_whatsapp env t m w)) = conversations w"
  by (simp add: enviar_mensaje_whatsapp_def Let_def)

lemma webhook_message_ok:
  assumes "message_ok m" and "string_histories w"
  shows "\<exists>w'. webhook_message env m w = (None, w') \<and> string_histories w'"
proof -
  from assms(1) obtain kvs where m: "m = JObj kvs"
    by (auto simp: message_ok_def split: json.splits)
  show ?thesis
  proof (cases "map_of kvs ''from''")
    case None
    with m assms(2) show ?thesis by (simp add: webhook_message_def)
  next
    case (Some sender)
    show ?thesis
    proof (cases "py_truthy sender")
      case False
      with m Some assms(2) show ?thesis by (simp add: webhook_message_def)
    next
      case True
      with assms(1) m Some obtain k where k: "py_hash sender = Inr k"
        by (auto simp: message_ok_def dest: py_hash_cases)
      let ?mtype = "case map_of kvs ''type'' of None \<Rightarrow> JNull | Some v \<Rightarrow> v"
      let ?ut = "message_user_text env m ?mtype"
      have "\<exists>ut. ?ut = Inr ut \<and> is_str ut"
      proof (cases "?mtype = JStr ''text''")
        case False
        then show ?thesis by (simp add: message_user_text_def)
      next
        case mt: True
        then have "map_of kvs ''type'' = Some (JStr ''text'')"
          by (cases "map_of kvs ''type''") auto
        with assms(1) m Some True obtain t where t: "map_of kvs ''text'' = Some (JObj t)"
            and b: "case map_of t ''body'' of None \<Rightarrow> True | Some v \<Rightarrow> is_str v"
          by (auto simp: message_ok_def split: option.splits json.splits)
        from b have "\<exists>ut. py_get (JObj t) ''body'' (JStr []) = Inr ut \<and> is_str ut"
          by (cases "map_of t ''body''") auto
        with mt t m show ?thesis by (simp add: message_user_text_def)
      qed
      then obtain ut where ut: "?ut = Inr ut" and s: "is_str ut"
        by blast
      from procesar_strs[OF k s assms(2)] obtain r w1
        where p: "procesar_con_gemini_for_sender env sender ut w = (Inr r, w1)" and w1: "string_histories w1"
        by blast
      from w1 have "string_histories (snd (enviar_mensaje_whatsapp env sender r w1))"
        by (simp add: string_histories_def enviar_conversations)
      with m Some True ut p show ?thesis
        by (simp add: webhook_message_def)
    qed
  qed
qed

lemma for_each_messages_ok:
  "\<forall>m \<in> set ms. message_ok m \<Longrightarrow> string_histories w \<Longrightarrow>
     \<exists>w'. for_each (webhook_message env) ms w = (None, w') \<and> string_histories w'"
proof (induction ms arbitrary: w)
  case Nil
  then show ?case by simp
next
  case (Cons m ms)
  from Cons.prems obtain w1 where 1: "webhook_message env m w = (None, w1)" and 2: "string_histories w1"
    using webhook_message_ok[of m w env] by auto
  from Cons.IH[OF _ 2] Cons.prems(1) 1 show ?case by simp
qed


section \<open>Generation failure on the per-sender path\<close>

lemma procesar_failure:
  assumes "procesar_con_gemini_for_sender env sender user_text w = (r, w')"
      and "gen_calls w' = gen_calls w @ [req]"
      and "generate_content env (length (gen_calls w)) req = Inl e"
      and "py_hash sender = Inr k"
  shows "r = Inr APOLOGY \<and> conversations w' = (conversations w)(k := None) \<and>
         delivery_calls w' = delivery_calls w \<and> http_posts w' = http_posts w"
  using assms
  by (auto simp: procesar_con_gemini_for_sender_def search_file_store_def Let_def
           split: sum.splits)

lemma enviar_traces:
  "gen_calls (snd (enviar_mensaje_whatsapp env t m w)) = gen_calls w \<and>
   delivery_calls (snd (enviar_mensaje_whatsapp env t m w)) = delivery_calls w @ [(t, m)]"
  by (simp add: enviar_mensaje_whatsapp_def Let_def)

lemma procesar_gen_calls:
  "procesar_con_gemini_for_sender env sender ut w = (Inl e, w') \<Longrightarrow> w' = w"
  by (auto simp: procesar_con_gemini_for_sender_def search_file_store_def Let_def
           split: sum.splits)

lemma text_message_fields:
  assumes "text_message m sid b"
  shows "py_get m ''from'' JNull = Inr (JStr sid) \<and> py_truthy (JStr sid) \<and>
         py_get m ''type'' JNull = Inr (JStr ''text'') \<and>
         message_user_text env m (JStr ''text'') = Inr (JStr b)"
proof -
  from assms obtain kvs where m: "m = JObj kvs"
    by (cases m) (simp_all add: text_message_def)
  with assms have sender: "map_of kvs ''from'' = Some (JStr sid)" and ne: "sid \<noteq> []"
      and ty: "map_of kvs ''type'' = Some (JStr ''text'')"
      and tx: "case map_of kvs ''text'' of
                 Some (JObj t) \<Rightarrow> (case map_of t ''body'' of None \<Rightarrow> b = [] | Some v \<Rightarrow> v = JStr b)
               | _ \<Rightarrow> False"
    by (simp_all add: text_message_def)
  from tx obtain v where v: "map_of kvs ''text'' = Some v"
    by (cases "map_of kvs ''text''") auto
  with tx obtain t where t: "v = JObj t"
    by (cases v) auto
  from tx v t have body: "case map_of t ''body'' of None \<Rightarrow> b = [] | Some v \<Rightarrow> v = JStr b"
    by simp
  then have "py_get (JObj t) ''body'' (JStr []) = Inr (JStr b)"
    by (cases "map_of t ''body''") auto
  with m sender ne ty v t show ?thesis
    by (simp add: message_user_text_def)
qed

lemma webhook_message_text:
  assumes "text_message m sid b"
  shows "webhook_message env m w =
           (case procesar_con_gemini_for_sender env (JStr sid) (JStr b) w of
              (Inl e, w') \<Rightarrow> (Some e, w')
            | (Inr bot_response, w') \<Rightarrow>
                (None, snd (enviar_mensaje_whatsapp env (JStr sid) bot_response w')))"
  using text_message_fields[OF assms, of env]
  by (simp add: webhook_message_def)

text \<open>
  C4. Three facts, for every sender id and every state.
  First, when the generation call of \<^verbatim>\<open>procesar_con_gemini_for_sender\<close> is made and
  raises, the function returns the apology text (no exception leaves it) and the store
  afterwards is the store before without the sender's entry.
  Second, the loop body of the webhook, on a text message whose generation call raises,
  ends without an exception, with the sender's entry removed and the apology handed to
  the delivery function.
  Third, on a truthy payload whose messages can all be read, over a store of string
  texts, the view returns \<^verbatim>\<open>EVENT_RECEIVED\<close> with status 200 for every behaviour of the
  generation provider, so also when calls raise.
\<close>

theorem generation_failure_is_swallowed:
  "(procesar_con_gemini_for_sender env (JStr sid) user_text w = (r, w') \<longrightarrow>
    gen_calls w' = gen_calls w @ [req] \<longrightarrow>
    generate_content env (length (gen_calls w)) req = Inl e \<longrightarrow>
      r = Inr APOLOGY \<and> conversations w' = (conversations w)(KStr sid := None)) \<and>
   (text_message m sid b \<longrightarrow>
    webhook_message env m w = (x, w2) \<longrightarrow>
    gen_calls w2 = gen_calls w @ [req] \<longrightarrow>
    generate_content env (length (gen_calls w)) req = Inl e \<longrightarrow>
      x = None \<and> conversations w2 = (conversations w)(KStr sid := None) \<and>
      delivery_calls w2 = delivery_calls w @ [(JStr sid, APOLOGY)]) \<and>
   (py_truthy payload \<longrightarrow>
    payload_messages payload = Some ms \<longrightarrow>
    (\<forall>m \<in> set ms. message_ok m) \<longrightarrow>
    string_histories w \<longrightarrow>
      fst (whatsapp_webhook env payload w) = (Body_Str ''EVENT_RECEIVED'', 200))"
proof -
  have flow: "r = Inr APOLOGY \<and> conversations w' = (conversations w)(KStr sid := None)"
    if "procesar_con_gemini_for_sender env (JStr sid) user_text w = (r, w')"
      and "gen_calls w' = gen_calls w @ [req]"
      and "generate_content env (length (gen_calls w)) req = Inl e"
    using procesar_failure[OF that, of "KStr sid"] by simp
  have loop_body: "x = None \<and> conversations w2 = (conversations w)(KStr sid := None) \<and>
        delivery_calls w2 = delivery_calls w @ [(JStr sid, APOLOGY)]"
    if tm: "text_message m sid b"
      and run: "webhook_message env m w = (x, w2)"
      and call: "gen_calls w2 = gen_calls w @ [req]"
      and bad: "generate_content env (length (gen_calls w)) req = Inl e"
  proof -
    obtain r1 w1 where p: "procesar_con_gemini_for_sender env (JStr sid) (JStr b) w = (r1, w1)"
      by (cases "procesar_con_gemini_for_sender env (JStr sid) (JStr b) w")
    show ?thesis
    proof (cases r1)
      case (Inl ex)
      with p have "w1 = w" by (simp add: procesar_gen_calls)
      with run p Inl call show ?thesis
        by (simp add: webhook_message_text[OF tm])
    next
      case (Inr reply)
      with run p have w2: "w2 = snd (enviar_mensaje_whatsapp env (JStr sid) reply w1)" and x: "x = None"
        by (simp_all add: webhook_message_text[OF tm])
      from w2 call have "gen_calls w1 = gen_calls w @ [req]"
        by (simp add: enviar_traces)
      from procesar_failure[OF p this bad, of "KStr sid"] Inr x w2 show ?thesis
        by (simp add: enviar_traces enviar_conversations)
    qed
  qed
  have handler: "fst (whatsapp_webhook env payload w) = (Body_Str ''EVENT_RECEIVED'', 200)"
    if t: "py_truthy payload" and ms: "payload_messages payload = Some ms"
      and ok: "\<forall>m \<in> set ms. message_ok m" and inv: "string_histories w"
    using for_each_messages_ok[OF ok inv, of env] whatsapp_webhook_messages[OF t ms, of env w]
    by auto
  from flow loop_body handler show ?thesis
    by blast
qed


theorem generation_failure_is_swallowed_witness:
  "fst (procesar_con_gemini_for_sender (demo_env (\<lambda>n r. Inl ''503 unavailable''))
          (JStr ''51999000111'') (JStr ''Hay piscina?'') returning_world) = Inr APOLOGY \<and>
   conversations (snd (procesar_con_gemini_for_sender (demo_env (\<lambda>n r. Inl ''503 unavailable''))
          (JStr ''51999000111'') (JStr ''Hay piscina?'') returning_world)) (KStr ''51999000111'') = None \<and>
   fst (webhook_message (demo_env (\<lambda>n r. Inl ''503 unavailable''))
          (text_event ''51999000111'' ''Hay piscina?'') returning_world) = None \<and>
   delivery_calls (snd (webhook_message (demo_env (\<lambda>n r. Inl ''503 unavailable''))
          (text_event ''51999000111'' ''Hay piscina?'') returning_world)) =
     [(JStr ''51999000111'', APOLOGY)] \<and>
   fst (whatsapp_webhook (demo_env (\<lambda>n r. Inl ''503 unavailable''))
          (text_payload ''51999000111'' ''Hay piscina?'') returning_world) =
     (Body_Str ''EVENT_RECEIVED'', 200)"
proof -
  let ?env = "demo_env (\<lambda>n r. Inl ''503 unavailable'')"
  let ?sid = "''51999000111''"
  let ?q = "''Hay piscina?''"
  let ?p = "procesar_con_gemini_for_sender ?env (JStr ?sid) (JStr ?q) returning_world"
  let ?m = "webhook_message ?env (text_event ?sid ?q) returning_world"
  let ?req = "\<lparr>model = ''gemini-2.5-flash'',
               contents = [Content ''user'' [Part (JStr ''hola'')],
                           Content ''model'' [Part (JStr ''Bienvenido'')],
                           Content ''user'' [Part (JStr ?q)]],
               system_instruction = SYSTEM_PROMPT_RESERVAS,
               file_search_store_names = [''fileSearchStores/hotelknowledgebasestore2-g76jm0ml54f0'']\<rparr>"
  have p_run: "?p = (fst ?p, snd ?p)"
    by simp
  have p_call: "gen_calls (snd ?p) = gen_calls returning_world @ [?req]"
    by (simp add: procesar_con_gemini_for_sender_def search_file_store_def Let_def demo_env_def
                  returning_world_def types_Part_def)
  have bad: "generate_content ?env (length (gen_calls returning_world)) ?req = Inl ''503 unavailable''"
    by (simp add: demo_env_def)
  have tm: "text_message (text_event ?sid ?q) ?sid ?q"
    by (simp add: text_message_def text_event_def)
  have m_run: "?m = (fst ?m, snd ?m)"
    by simp
  have m_call: "gen_calls (snd ?m) = gen_calls returning_world @ [?req]"
    by (simp add: webhook_message_def message_user_text_def text_event_def
                  procesar_con_gemini_for_sender_def search_file_store_def Let_def demo_env_def
                  returning_world_def types_Part_def enviar_mensaje_whatsapp_def)
  have truthy: "py_truthy (text_payload ?sid ?q)"
    by (simp add: text_payload_def)
  have msgs: "payload_messages (text_payload ?sid ?q) = Some [text_event ?sid ?q]"
    by (simp add: text_payload_def payload_messages_def payload_entries_def entry_changes_def
                  change_messages_def)
  have ok: "\<forall>m \<in> set [text_event ?sid ?q]. message_ok m"
    by (simp add: message_ok_def text_event_def)
  have inv: "string_histories returning_world"
    by (auto simp: string_histories_def returning_world_def split: if_splits)
  from generation_failure_is_swallowed[of ?env ?sid "JStr ?q" returning_world "fst ?p" "snd ?p" ?req
         "''503 unavailable''" "text_event ?sid ?q" ?q "fst ?m" "snd ?m" "text_payload ?sid ?q"
         "[text_event ?sid ?q]"]
       p_run p_call bad tm m_run m_call truthy msgs ok inv
  show ?thesis
    by (simp add: returning_world_def)
qed

section \<open>One text message from a new sender\<close>

lemma procesar_new_sender:
  assumes "conversations w (KStr sid) = None"
      and "generate_content env (length (gen_calls w))
             \<lparr>model = ''gemini-2.5-flash'', contents = [Content ''user'' [Part (JStr b)]],
              system_instruction = SYSTEM_PROMPT_RESERVAS,
              file_search_store_names = [''fileSearchStores/'' @ FILE_SEARCH_STORE_ID env]\<rparr> = Inr reply"
  shows "procesar_con_gemini_for_sender env (JStr sid) (JStr b) w =
           (Inr reply,
            w\<lparr>gen_calls := gen_calls w @
                 [\<lparr>model = ''gemini-2.5-flash'', contents = [Content ''user'' [Part (JStr b)]],
                   system_instruction = SYSTEM_PROMPT_RESERVAS,
                   file_search_store_names = [''fileSearchStores/'' @ FILE_SEARCH_STORE_ID env]\<rparr>],
              conversations := (conversations w)(KStr sid \<mapsto>
                 [\<lparr>role = ''user'', turn_text = JStr b\<rparr>,
                  \<lparr>role = ''model'', turn_text = JStr reply\<rparr>])\<rparr>)"
  using assms
  by (simp add: procesar_con_gemini_for_sender_def search_file_store_def Let_def types_Part_def)

lemma enviar_http_posts:
  "http_posts (snd (enviar_mensaje_whatsapp env t m w)) =
     http_posts w @
     (if WHATSAPP_TOKEN env = [] \<or> WHATSAPP_PHONE_ID env = [] then []
      else [\<lparr>url = ''https://graph.facebook.com/v19.0/'' @ WHATSAPP_PHONE_ID env @ ''/messages'',
             headers = [(''Authorization'', ''Bearer '' @ WHATSAPP_TOKEN env),
                        (''Content-Type'', ''application/json'')],
             json_payload = JObj [(''messaging_product'', JStr ''whatsapp''),
                                  (''to'', t),
                                  (''type'', JStr ''text''),
                                  (''text'', JObj [(''body'', JStr m)])],
             timeout = 10\<rparr>])"
  by (simp add: enviar_mensaje_whatsapp_def Let_def)

text \<open>
  C5. The payload holds exactly one message, a text message with body \<open>b\<close> from a
  sender \<open>sid\<close> who has no conversation yet, and the generation call answers \<open>reply\<close>.
  Then the view returns \<^verbatim>\<open>EVENT_RECEIVED\<close> with status 200; the store afterwards is the
  store before plus one entry for \<open>sid\<close>, holding the user turn \<open>b\<close> followed by the
  model turn \<open>reply\<close>; the delivery function is called exactly once, for \<open>sid\<close> with
  \<open>reply\<close>; and it posts exactly one HTTP request, addressed to \<open>sid\<close>, when both
  WhatsApp secrets are configured (none otherwise).
\<close>

theorem whatsapp_webhook_one_text_message:
  assumes "payload_messages payload = Some [m]"
      and "text_message m sid b"
      and "conversations w (KStr sid) = None"
      and "generate_content env (length (gen_calls w))
             \<lparr>model = ''gemini-2.5-flash'', contents = [Content ''user'' [Part (JStr b)]],
              system_instruction = SYSTEM_PROMPT_RESERVAS,
              file_search_store_names = [''fileSearchStores/'' @ FILE_SEARCH_STORE_ID env]\<rparr> = Inr reply"
  shows "fst (whatsapp_webhook env payload w) = (Body_Str ''EVENT_RECEIVED'', 200) \<and>
         conversations (snd (whatsapp_webhook env payload w)) =
           (conversations w)(KStr sid \<mapsto>
              [\<lparr>role = ''user'', turn_text = JStr b\<rparr>, \<lparr>role = ''model'', turn_text = JStr reply\<rparr>]) \<and>
         delivery_calls (snd (whatsapp_webhook env payload w)) =
           delivery_calls w @ [(JStr sid, reply)] \<and>
         http_posts (snd (whatsapp_webhook env payload w)) =
           http_posts w @
           (if WHATSAPP_TOKEN env = [] \<or> WHATSAPP_PHONE_ID env = [] then []
            else [\<lparr>url = ''https://graph.facebook.com/v19.0/'' @ WHATSAPP_PHONE_ID env @ ''/messages'',
                   headers = [(''Authorization'', ''Bearer '' @ WHATSAPP_TOKEN env),
                              (''Content-Type'', ''application/json'')],
                   json_payload = JObj [(''messaging_product'', JStr ''whatsapp''),
                                        (''to'', JStr sid),
                                        (''type'', JStr ''text''),
                                        (''text'', JObj [(''body'', JStr reply)])],
                   timeout = 10\<rparr>])"
proof -
  let ?w1 = "snd (procesar_con_gemini_for_sender env (JStr sid) (JStr b) w)"
  have t: "py_truthy payload"
    by (rule payload_messages_truthy[OF assms(1)])
  have run: "whatsapp_webhook env payload w =
               ((Body_Str ''EVENT_RECEIVED'', 200),
                snd (enviar_mensaje_whatsapp env (JStr sid) reply ?w1))"
    by (simp add: whatsapp_webhook_messages[OF t assms(1)] webhook_message_text[OF assms(2)]
                  procesar_new_sender[OF assms(3,4)])
  show ?thesis
    unfolding run
    by (simp add: enviar_conversations enviar_traces enviar_http_posts
                  procesar_new_sender[OF assms(3,4)])
qed

theorem whatsapp_webhook_one_text_message_witness:
  "fst (whatsapp_webhook (demo_env (\<lambda>n r. Inr ''Si, hay piscina.''))
          (text_payload ''51999000111'' ''Hay piscina?'') empty_world) =
     (Body_Str ''EVENT_RECEIVED'', 200) \<and>
   conversations (snd (whatsapp_webhook (demo_env (\<lambda>n r. Inr ''Si, hay piscina.''))
          (text_payload ''51999000111'' ''Hay piscina?'') empty_world)) =
     [KStr ''51999000111'' \<mapsto> [\<lparr>role = ''user'', turn_text = JStr ''Hay piscina?''\<rparr>,
                               \<lparr>role = ''model'', turn_text = JStr ''Si, hay piscina.''\<rparr>]] \<and>
   delivery_calls (snd (whatsapp_webhook (demo_env (\<lambda>n r. Inr ''Si, hay piscina.''))
          (text_payload ''51999000111'' ''Hay piscina?'') empty_world)) =
     [(JStr ''51999000111'', ''Si, hay piscina.'')] \<and>
   http_posts (snd (whatsapp_webhook (demo_env (\<lambda>n r. Inr ''Si, hay piscina.''))
          (text_payload ''51999000111'' ''Hay piscina?'') empty_world)) =
     [\<lparr>url = ''https://graph.facebook.com/v19.0/1055/messages'',
       headers = [(''Authorization'', ''Bearer token''), (''Content-Type'', ''application/json'')],
       json_payload = JObj [(''messaging_product'', JStr ''whatsapp''),
                            (''to'', JStr ''51999000111''),
                            (''type'', JStr ''text''),
                            (''text'', JObj [(''body'', JStr ''Si, hay piscina.'')])],
       timeout = 10\<rparr>]"
proof -
  let ?env = "demo_env (\<lambda>n r. Inr ''Si, hay piscina.'')"
  let ?sid = "''51999000111''"
  let ?q = "''Hay piscina?''"
  have msgs: "payload_messages (text_payload ?sid ?q) = Some [text_event ?sid ?q]"
    by (simp add: text_payload_def payload_messages_def payload_entries_def entry_changes_def
                  change_messages_def)
  have tm: "text_message (text_event ?sid ?q) ?sid ?q"
    by (simp add: text_message_def text_event_def)
  have new: "conversations empty_world (KStr ?sid) = None"
    by (simp add: empty_world_def)
  have ok: "generate_content ?env (length (gen_calls empty_world))
             \<lparr>model = ''gemini-2.5-flash'', contents = [Content ''user'' [Part (JStr ?q)]],
              system_instruction = SYSTEM_PROMPT_RESERVAS,
              file_search_store_names = [''fileSearchStores/'' @ FILE_SEARCH_STORE_ID ?env]\<rparr> =
            Inr ''Si, hay piscina.''"
    by (simp add: demo_env_def)
  from whatsapp_webhook_one_text_message[OF msgs tm new ok] show ?thesis
    by (simp add: demo_env_def empty_world_def)
qed

section \<open>Store names of the two paths\<close>

text \<open>
  C6. Take the same stored history, the same new text and the same configuration on
  both paths. The request of \<^verbatim>\<open>/query\<close> names the store by the bare id; the request of
  the per-sender path is that same request (model, contents, system instruction) with
  the store name \<^verbatim>\<open>fileSearchStores/\<close> followed by the id, and the two names differ.
  When the provider treats both requests alike, both paths leave the same history.
\<close>

theorem store_name_discrepancy:
  assumes "data = JObj kvs" and "map_of kvs ''query'' = Some q"
      and "py_hash sender_id = Inr k" and "s ''chat_history'' = conversations w k"
      and "handle_query env data s w = (r1, s1, w1)"
      and "procesar_con_gemini_for_sender env sender_id q w = (r2, w2)"
      and "gen_calls w1 = gen_calls w @ [req1]"
  shows "file_search_store_names req1 = [FILE_SEARCH_STORE_ID env] \<and>
         gen_calls w2 = gen_calls w @
           [req1\<lparr>file_search_store_names := [''fileSearchStores/'' @ FILE_SEARCH_STORE_ID env]\<rparr>] \<and>
         [''fileSearchStores/'' @ FILE_SEARCH_STORE_ID env] \<noteq> [FILE_SEARCH_STORE_ID env] \<and>
         (generate_content env (length (gen_calls w))
            (req1\<lparr>file_search_store_names := [''fileSearchStores/'' @ FILE_SEARCH_STORE_ID env]\<rparr>) =
          generate_content env (length (gen_calls w)) req1 \<longrightarrow>
            conversations w2 k = s1 ''chat_history'')"
  using assms py_in_dict_key[OF assms(2)]
  by (auto simp: handle_query_def procesar_con_gemini_for_sender_def search_file_store_def Let_def
           split: if_splits sum.splits bool.splits)

theorem store_name_discrepancy_witness:
  "gen_calls (snd (snd (handle_query (demo_env (\<lambda>n r. Inr ''Si, hay piscina.''))
       (JObj [(''query'', JStr ''Hay piscina?'')]) greeting_session returning_world))) =
     [\<lparr>model = ''gemini-2.5-flash'',
       contents = [Content ''user'' [Part (JStr ''hola'')],
                   Content ''model'' [Part (JStr ''Bienvenido'')],
                   Content ''user'' [Part (JStr ''Hay piscina?'')]],
       system_instruction = SYSTEM_PROMPT_RESERVAS,
       file_search_store_names = [''hotelknowledgebasestore2-g76jm0ml54f0'']\<rparr>] \<and>
   gen_calls (snd (procesar_con_gemini_for_sender (demo_env (\<lambda>n r. Inr ''Si, hay piscina.''))
       (JStr ''51999000111'') (JStr ''Hay piscina?'') returning_world)) =
     [\<lparr>model = ''gemini-2.5-flash'',
       contents = [Content ''user'' [Part (JStr ''hola'')],
                   Content ''model'' [Part (JStr ''Bienvenido'')],
                   Content ''user'' [Part (JStr ''Hay piscina?'')]],
       system_instruction = SYSTEM_PROMPT_RESERVAS,
       file_search_store_names = [''fileSearchStores/hotelknowledgebasestore2-g76jm0ml54f0'']\<rparr>] \<and>
   conversations (snd (procesar_con_gemini_for_sender (demo_env (\<lambda>n r. Inr ''Si, hay piscina.''))
       (JStr ''51999000111'') (JStr ''Hay piscina?'') returning_world)) (KStr ''51999000111'') =
     fst (snd (handle_query (demo_env (\<lambda>n r. Inr ''Si, hay piscina.''))
       (JObj [(''query'', JStr ''Hay piscina?'')]) greeting_session returning_world)) ''chat_history''"
proof -
  let ?env = "demo_env (\<lambda>n r. Inr ''Si, hay piscina.'')"
  let ?kvs = "[(''query'', JStr ''Hay piscina?'')]"
  let ?h = "handle_query ?env (JObj ?kvs) greeting_session returning_world"
  let ?p = "procesar_con_gemini_for_sender ?env (JStr ''51999000111'') (JStr ''Hay piscina?'') returning_world"
  let ?req = "\<lparr>model = ''gemini-2.5-flash'',
       contents = [Content ''user'' [Part (JStr ''hola'')],
                   Content ''model'' [Part (JStr ''Bienvenido'')],
                   Content ''user'' [Part (JStr ''Hay piscina?'')]],
       system_instruction = SYSTEM_PROMPT_RESERVAS,
       file_search_store_names = [''hotelknowledgebasestore2-g76jm0ml54f0'']\<rparr>"
  have q: "map_of ?kvs ''query'' = Some (JStr ''Hay piscina?'')"
    by simp
  have k: "py_hash (JStr ''51999000111'') = Inr (KStr ''51999000111'')"
    by simp
  have same: "greeting_session ''chat_history'' = conversations returning_world (KStr ''51999000111'')"
    by (simp add: greeting_session_def returning_world_def)
  have h_run: "?h = (fst ?h, fst (snd ?h), snd (snd ?h))"
    by simp
  have p_run: "?p = (fst ?p, snd ?p)"
    by simp
  have call: "gen_calls (snd (snd ?h)) = gen_calls returning_world @ [?req]"
    by (simp add: handle_query_def search_file_store_def Let_def demo_env_def returning_world_def
                  greeting_session_def types_Part_def)
  from store_name_discrepancy[OF refl q k same h_run p_run call] call show ?thesis
    by (simp add: demo_env_def returning_world_def)
qed

end
